theory Spec2Isabelle
  imports Main
begin

section \<open>The challenge selector of react-practice (App.jsx)\<close>

text \<open>
  The only runnable logic of the repository is the component \<open>App\<close>: a constant array
  \<open>challenges\<close> of five descriptors, one state hook \<open>selectedChallenge\<close> started at
  \<open>1\<close>, a lookup \<open>challenges.find(c => c.id === selectedChallenge)?.component\<close>, a
  sidebar with one button per descriptor whose click handler calls
  \<open>setSelectedChallenge(challenge.id)\<close>, and a main area that shows the component found
  (or nothing).
\<close>

subsection \<open>Data\<close>

text \<open>The five components imported at the top of App.jsx, as references.\<close>

datatype component = Challenge1 | Challenge2 | Challenge3 | Challenge4 | Challenge5

text \<open>
  One entry of the array \<open>challenges\<close>. The field \<open>id\<close> of the source is \<open>id_c\<close> here
  (\<open>id\<close> is the identity function of HOL).
\<close>

record challenge =
  id_c :: int
  name :: string
  component :: component
  time :: string

definition challenges :: "challenge list" where
  "challenges =
    [ \<lparr>id_c = 1, name = ''User List with Fetch'', component = Challenge1, time = ''10-15 min''\<rparr>,
      \<lparr>id_c = 2, name = ''Search & Filter'', component = Challenge2, time = ''15-20 min''\<rparr>,
      \<lparr>id_c = 3, name = ''Todo List (CRUD)'', component = Challenge3, time = ''20-25 min''\<rparr>,
      \<lparr>id_c = 4, name = ''Form Validation'', component = Challenge4, time = ''20-25 min''\<rparr>,
      \<lparr>id_c = 5, name = ''Custom Hook'', component = Challenge5, time = ''15-20 min''\<rparr> ]"

subsection \<open>State\<close>

text \<open>
  The state of \<open>App\<close> is the one hook \<open>useState(1)\<close>. The setter stores its argument as
  it is: the source checks nothing.
\<close>

record app_state =
  selectedChallenge :: int

definition App_init :: app_state where
  "App_init = \<lparr>selectedChallenge = 1\<rparr>"

definition setSelectedChallenge :: "int \<Rightarrow> app_state \<Rightarrow> app_state" where
  "setSelectedChallenge i s = s\<lparr>selectedChallenge := i\<rparr>"

subsection \<open>Lookup\<close>

text \<open>
  \<open>cs.find(c => c.id === sel)\<close>: the first entry of \<open>cs\<close> whose id is \<open>sel\<close>, or
  \<open>undefined\<close> (here \<open>None\<close>) when there is none.
\<close>

definition find_challenge :: "challenge list \<Rightarrow> int \<Rightarrow> challenge option" where
  "find_challenge cs sel = find (\<lambda>c. id_c c = sel) cs"

text \<open>
  \<open>const CurrentChallenge = challenges.find(...)?.component\<close>: the optional chaining
  \<open>?.\<close> gives \<open>undefined\<close> when nothing was found, and the field otherwise.
\<close>

definition CurrentChallenge :: "app_state \<Rightarrow> component option" where
  "CurrentChallenge s =
     map_option component (find_challenge challenges (selectedChallenge s))"

subsection \<open>Rendering\<close>

text \<open>
  What \<open>App\<close> returns, without the constant styling: the two texts of the header, the
  heading of the sidebar, one list item per descriptor, and the children of
  \<open>main\<close>. A list item keeps its key, the id its click handler passes to
  \<open>setSelectedChallenge\<close>, the two style values that depend on the state, and the three
  texts of the button (the number after "Challenge", the name and the time).
\<close>

record li_view =
  key :: int
  onClick :: int
  background :: string
  color :: string
  label_id :: int
  label_name :: string
  label_time :: string

record app_view =
  header_h1 :: string
  header_p :: string
  aside_h3 :: string
  aside_ul :: "li_view list"
  main_children :: "component option"

definition li_of :: "int \<Rightarrow> challenge \<Rightarrow> li_view" where
  "li_of sel c =
     \<lparr> key = id_c c,
       onClick = id_c c,
       background = (if sel = id_c c then ''#007bff'' else ''#f0f0f0''),
       color = (if sel = id_c c then ''white'' else ''black''),
       label_id = id_c c,
       label_name = name c,
       label_time = time c \<rparr>"

text \<open>
  \<open>{CurrentChallenge && <CurrentChallenge />}\<close>: nothing is rendered in \<open>main\<close> when
  \<open>CurrentChallenge\<close> is \<open>undefined\<close>.
\<close>

definition App :: "app_state \<Rightarrow> app_view" where
  "App s =
     \<lparr> header_h1 = ''React Interview Practice'',
       header_p = ''Select a challenge and practice for your 30-minute interview!'',
       aside_h3 = ''Challenges'',
       aside_ul = map (li_of (selectedChallenge s)) challenges,
       main_children = (case CurrentChallenge s of None \<Rightarrow> None | Some c \<Rightarrow> Some c) \<rparr>"

subsection \<open>Steps\<close>

text \<open>
  A step of the shell is a click on one of the buttons that \<open>App\<close> rendered in the
  current state; it calls the setter with the id held by that button.
\<close>

inductive step :: "app_state \<Rightarrow> app_state \<Rightarrow> bool" where
  click: "b \<in> set (aside_ul (App s)) \<Longrightarrow> step s (setSelectedChallenge (onClick b) s)"

inductive reachable :: "app_state \<Rightarrow> bool" where
  init: "reachable App_init"
| next_state: "reachable s \<Longrightarrow> step s s' \<Longrightarrow> reachable s'"

code_pred step .

section \<open>Properties\<close>

subsection \<open>The registry\<close>

lemma challenges_ids: "map id_c challenges = [1, 2, 3, 4, 5]"
  by (simp add: challenges_def)

lemma distinct_ids: "distinct (map id_c challenges)"
  by (simp add: challenges_ids)

text \<open>
  C6. The ids of the descriptors in the array \<open>challenges\<close> are pairwise distinct: no two
  entries share an id.
\<close>

theorem challenges_ids_distinct: "distinct (map id_c challenges)"
  by (simp add: challenges_def)

text \<open>
  C7. The registry is a non-empty sequence in the order in which the source lists it
  (ids 1 to 5), and every render, in whatever state, lists the same entries in that same
  order: the listing does not depend on the state and is the same at every call.
\<close>

theorem registry_listing:
  "challenges \<noteq> [] \<and> map id_c challenges = [1, 2, 3, 4, 5] \<and>
   map (\<lambda>b. (key b, label_name b, label_time b)) (aside_ul (App s)) =
     map (\<lambda>c. (id_c c, name c, time c)) challenges"
  by (simp add: challenges_ids App_def li_of_def) (simp add: challenges_def)

subsection \<open>Lookup by id\<close>

lemma find_challenge_None: "find_challenge cs i = None \<longleftrightarrow> i \<notin> id_c ` set cs"
  by (auto simp: find_challenge_def find_None_iff)

lemma find_challenge_SomeD: "find_challenge cs i = Some d \<Longrightarrow> d \<in> set cs \<and> id_c d = i"
  by (induction cs) (auto simp: find_challenge_def split: if_splits)

lemma find_challenge_distinct:
  "distinct (map id_c cs) \<Longrightarrow> d \<in> set cs \<Longrightarrow> find_challenge cs (id_c d) = Some d"
  by (induction cs) (auto simp: find_challenge_def)

text \<open>
  C5. The lookup in the registry returns a descriptor exactly when that descriptor is an
  entry of the registry with the id asked for, and it returns \<open>None\<close> exactly when no
  entry has that id.
\<close>

theorem find_challenge_registry:
  "(find_challenge challenges i = Some d \<longleftrightarrow> d \<in> set challenges \<and> id_c d = i) \<and>
   (find_challenge challenges i = None \<longleftrightarrow> i \<notin> id_c ` set challenges)"
  using find_challenge_distinct [OF distinct_ids] find_challenge_SomeD find_challenge_None
  by blast

subsection \<open>Selection\<close>

text \<open>
  C10. The setter validates nothing: for every integer \<open>i\<close>, in the registry or not, the
  state after \<open>setSelectedChallenge i\<close> holds exactly \<open>i\<close>. It has no failing branch.
\<close>

theorem setSelectedChallenge_unchecked:
  "setSelectedChallenge i s = \<lparr>selectedChallenge = i\<rparr> \<and>
   selectedChallenge (setSelectedChallenge i s) = i"
  by (simp add: setSelectedChallenge_def)

text \<open>
  C1. For every descriptor \<open>d\<close> of the registry, after selecting \<open>id_c d\<close> the lookup by
  the selected id gives \<open>d\<close> itself, and the main area shows the component of \<open>d\<close>.
\<close>

theorem select_makes_active:
  "d \<in> set challenges \<Longrightarrow>
     find_challenge challenges (selectedChallenge (setSelectedChallenge (id_c d) s)) = Some d \<and>
     main_children (App (setSelectedChallenge (id_c d) s)) = Some (component d)"
  by (simp add: setSelectedChallenge_def App_def CurrentChallenge_def
      find_challenge_distinct [OF distinct_ids])

theorem select_makes_active_witness:
  "\<lparr>id_c = 3, name = ''Todo List (CRUD)'', component = Challenge3, time = ''20-25 min''\<rparr>
      \<in> set challenges \<and>
   find_challenge challenges (selectedChallenge (setSelectedChallenge 3 App_init)) =
     Some \<lparr>id_c = 3, name = ''Todo List (CRUD)'', component = Challenge3, time = ''20-25 min''\<rparr> \<and>
   main_children (App (setSelectedChallenge 3 App_init)) = Some Challenge3"
proof -
  let ?d = "\<lparr>id_c = 3, name = ''Todo List (CRUD)'', component = Challenge3, time = ''20-25 min''\<rparr>"
  have h: "?d \<in> set challenges" by (simp add: challenges_def)
  show ?thesis using h select_makes_active [OF h, of App_init] by simp
qed

text \<open>
  C3. In the initial state the selected id is the id of the first entry of the registry,
  so the descriptor found, and the component shown, are those of the first entry.
\<close>

theorem initial_selection_is_first:
  "\<exists>c cs. challenges = c # cs \<and> selectedChallenge App_init = id_c c \<and>
     find_challenge challenges (selectedChallenge App_init) = Some c \<and>
     main_children (App App_init) = Some (component c)"
  by (simp add: challenges_def App_init_def find_challenge_def App_def CurrentChallenge_def)

text \<open>
  C4. Selecting the id that is already selected, an id of the registry, leaves the state
  as it was, and the render of the resulting state is the render of the state before.
\<close>

theorem select_current_idempotent:
  "selectedChallenge s = i \<Longrightarrow> i \<in> id_c ` set challenges \<Longrightarrow>
     setSelectedChallenge i s = s \<and> App (setSelectedChallenge i s) = App s"
proof -
  assume "selectedChallenge s = i"
  then have "setSelectedChallenge i s = s"
    by (cases s) (simp add: setSelectedChallenge_def)
  then show ?thesis by simp
qed

theorem select_current_idempotent_witness:
  "selectedChallenge App_init = 1 \<and> 1 \<in> id_c ` set challenges \<and>
   setSelectedChallenge 1 App_init = App_init \<and>
   App (setSelectedChallenge 1 App_init) = App App_init"
proof -
  have a: "selectedChallenge App_init = 1" by (simp add: App_init_def)
  have b: "1 \<in> id_c ` set challenges" by (simp add: challenges_def)
  show ?thesis using a b select_current_idempotent [OF a b] by simp
qed

text \<open>
  C8. The scenario, for any registry that starts with a descriptor of id 1 named
  "User List" and a descriptor of id 2 named "Search & Filter": from a state that selects
  1, after selecting 2 the descriptor found has the name "Search & Filter".
\<close>

theorem scenario_select_second:
  "cs = d1 # d2 # rest \<Longrightarrow> id_c d1 = 1 \<Longrightarrow> name d1 = ''User List'' \<Longrightarrow>
   id_c d2 = 2 \<Longrightarrow> name d2 = ''Search & Filter'' \<Longrightarrow> selectedChallenge s = 1 \<Longrightarrow>
     map_option name (find_challenge cs (selectedChallenge (setSelectedChallenge 2 s))) =
       Some ''Search & Filter''"
  by (simp add: find_challenge_def setSelectedChallenge_def)

theorem scenario_select_second_witness:
  "map_option name
     (find_challenge
        [\<lparr>id_c = 1, name = ''User List'', component = Challenge1, time = ''10-15 min''\<rparr>,
         \<lparr>id_c = 2, name = ''Search & Filter'', component = Challenge2, time = ''15-20 min''\<rparr>]
        (selectedChallenge (setSelectedChallenge 2 App_init))) = Some ''Search & Filter''"
  using scenario_select_second
    [of "[\<lparr>id_c = 1, name = ''User List'', component = Challenge1, time = ''10-15 min''\<rparr>,
          \<lparr>id_c = 2, name = ''Search & Filter'', component = Challenge2, time = ''15-20 min''\<rparr>]"
        "\<lparr>id_c = 1, name = ''User List'', component = Challenge1, time = ''10-15 min''\<rparr>"
        "\<lparr>id_c = 2, name = ''Search & Filter'', component = Challenge2, time = ''15-20 min''\<rparr>"
        "[]" App_init]
  by (simp add: App_init_def)

text \<open>
  The same outcome on the array of the source, whose first entry is named
  "User List with Fetch".
\<close>

lemma scenario_on_challenges:
  "map_option name
     (find_challenge challenges (selectedChallenge (setSelectedChallenge 2 App_init))) =
   Some ''Search & Filter''"
  by (simp add: challenges_def find_challenge_def setSelectedChallenge_def)

subsection \<open>Rendering without a match\<close>

text \<open>
  C9. When the selected id is the id of no entry, the lookup gives \<open>None\<close>, so does
  \<open>CurrentChallenge\<close>, and \<open>App\<close> still returns a view: the header, one list item per
  entry of the registry, and an empty main area.
\<close>

theorem render_without_match:
  "selectedChallenge s \<notin> id_c ` set challenges \<Longrightarrow>
     find_challenge challenges (selectedChallenge s) = None \<and>
     CurrentChallenge s = None \<and>
     header_h1 (App s) = ''React Interview Practice'' \<and>
     map key (aside_ul (App s)) = map id_c challenges \<and>
     main_children (App s) = None"
proof -
  assume "selectedChallenge s \<notin> id_c ` set challenges"
  then have none: "find_challenge challenges (selectedChallenge s) = None"
    by (simp add: find_challenge_None)
  then show ?thesis
    by (simp add: CurrentChallenge_def App_def li_of_def)
qed

theorem render_without_match_witness:
  "selectedChallenge \<lparr>selectedChallenge = 99\<rparr> \<notin> id_c ` set challenges \<and>
   find_challenge challenges 99 = None \<and>
   CurrentChallenge \<lparr>selectedChallenge = 99\<rparr> = None \<and>
   header_h1 (App \<lparr>selectedChallenge = 99\<rparr>) = ''React Interview Practice'' \<and>
   map key (aside_ul (App \<lparr>selectedChallenge = 99\<rparr>)) = [1, 2, 3, 4, 5] \<and>
   main_children (App \<lparr>selectedChallenge = 99\<rparr>) = None"
proof -
  have h: "selectedChallenge \<lparr>selectedChallenge = 99\<rparr> \<notin> id_c ` set challenges"
    by (simp add: challenges_def)
  show ?thesis using h render_without_match [OF h] by (simp add: challenges_ids)
qed

subsection \<open>Reachable states\<close>

lemma onClick_li_of: "onClick (li_of sel c) = id_c c"
  by (simp add: li_of_def)

text \<open>The ids that the rendered buttons can pass to the setter are those of the registry.\<close>

lemma step_iff:
  "step s s' \<longleftrightarrow> (\<exists>c \<in> set challenges. s' = setSelectedChallenge (id_c c) s)"
proof
  assume "step s s'"
  then obtain b where b: "b \<in> set (aside_ul (App s))"
    and s': "s' = setSelectedChallenge (onClick b) s"
    by (auto elim: step.cases)
  from b obtain c where "c \<in> set challenges" "b = li_of (selectedChallenge s) c"
    by (auto simp: App_def)
  with s' show "\<exists>c \<in> set challenges. s' = setSelectedChallenge (id_c c) s"
    by (auto simp: onClick_li_of)
next
  assume "\<exists>c \<in> set challenges. s' = setSelectedChallenge (id_c c) s"
  then obtain c where c: "c \<in> set challenges" and s': "s' = setSelectedChallenge (id_c c) s"
    by blast
  from c have "li_of (selectedChallenge s) c \<in> set (aside_ul (App s))"
    by (simp add: App_def)
  from step.click [OF this] show "step s s'"
    by (simp add: s' onClick_li_of)
qed

text \<open>
  C2. In every state reached from the initial state by clicks on rendered buttons (each
  of which selects an id of the registry), the selected id is the id of some descriptor
  of the registry.
\<close>

theorem reachable_selected_in_registry:
  "reachable s \<Longrightarrow> selectedChallenge s \<in> id_c ` set challenges"
proof (induction rule: reachable.induct)
  case init
  show ?case by (simp add: App_init_def challenges_def)
next
  case (next_state s s')
  from next_state.hyps(2) obtain c
    where "c \<in> set challenges" "s' = setSelectedChallenge (id_c c) s"
    by (auto simp: step_iff)
  then show ?case by (simp add: setSelectedChallenge_def)
qed

theorem reachable_selected_in_registry_witness:
  "reachable (setSelectedChallenge 4 (setSelectedChallenge 2 App_init)) \<and>
   selectedChallenge (setSelectedChallenge 4 (setSelectedChallenge 2 App_init))
     \<in> id_c ` set challenges"
proof -
  have s2: "step App_init (setSelectedChallenge 2 App_init)"
    by (simp add: step_iff challenges_def)
  have s4: "step (setSelectedChallenge 2 App_init)
              (setSelectedChallenge 4 (setSelectedChallenge 2 App_init))"
    by (simp add: step_iff challenges_def)
  have r: "reachable (setSelectedChallenge 4 (setSelectedChallenge 2 App_init))"
    by (rule reachable.next_state [OF reachable.next_state [OF reachable.init s2] s4])
  show ?thesis using r reachable_selected_in_registry [OF r] by simp
qed

end
